theory Spec2Isabelle
  imports Complex_Main
begin

section \<open>Tensors\<close>

text \<open>
  The notebook \<^verbatim>\<open>custom-layer.ipynb\<close> defines four layers on top of PyTorch:
  \<^verbatim>\<open>CenteredLayer\<close>, \<^verbatim>\<open>MyLinear\<close>, \<^verbatim>\<open>TensorReductionLayer\<close> and
  \<^verbatim>\<open>FourierCoefficientsLayer\<close>. Each \<^verbatim>\<open>forward\<close> is a few calls of tensor
  primitives. A tensor is modelled as PyTorch stores a contiguous one: its shape and
  its elements in row-major order. A tensor is well formed when it has as many
  elements as its shape says; every tensor PyTorch hands out is.

  Arithmetic is exact: rounding and overflow of the floating-point formats are not
  part of the model.
\<close>

record 'a tensor =
  shape :: "nat list"
  storage :: "'a list"

definition numel :: "'a tensor \<Rightarrow> nat" where
  "numel t = prod_list (shape t)"

definition wf_tensor :: "'a tensor \<Rightarrow> bool" where
  "wf_tensor t \<longleftrightarrow> length (storage t) = prod_list (shape t)"

text \<open>The exceptions the primitives raise. \<open>NotModelled\<close> marks a call whose
  operand ranks the layers never produce and the model does not cover.\<close>

datatype error = RuntimeError | IndexError | NotModelled

subsection \<open>Broadcasting\<close>

text \<open>
  Shapes are aligned at their last dimension; two sizes are compatible when they are
  equal or one of them is 1. \<open>broadcast_rev\<close> works on the reversed shapes.
\<close>

fun broadcast_rev :: "nat list \<Rightarrow> nat list \<Rightarrow> nat list option" where
  "broadcast_rev [] ys = Some ys"
| "broadcast_rev (x # xs) [] = Some (x # xs)"
| "broadcast_rev (x # xs) (y # ys) =
     (if x = y \<or> y = 1 then map_option ((#) x) (broadcast_rev xs ys)
      else if x = 1 then map_option ((#) y) (broadcast_rev xs ys)
      else None)"

definition broadcast_shapes :: "nat list \<Rightarrow> nat list \<Rightarrow> nat list option" where
  "broadcast_shapes a b = map_option rev (broadcast_rev (rev a) (rev b))"

text \<open>Row-major position of a multi-index, and the multi-index of a position.\<close>

fun ravel :: "nat list \<Rightarrow> nat list \<Rightarrow> nat" where
  "ravel (d # ds) (i # is) = i * prod_list ds + ravel ds is"
| "ravel _ _ = 0"

fun unravel :: "nat list \<Rightarrow> nat \<Rightarrow> nat list" where
  "unravel [] k = []"
| "unravel (d # ds) k = (k div prod_list ds) # unravel ds (k mod prod_list ds)"

text \<open>\<open>elem T [i, j, \<dots>]\<close> is the element \<open>T[i, j, \<dots>]\<close>.\<close>

definition elem :: "'a tensor \<Rightarrow> nat list \<Rightarrow> 'a" where
  "elem T idx = storage T ! ravel (shape T) idx"

text \<open>
  \<open>bindex s sa k\<close> is the position, in an operand of shape \<open>sa\<close>, of the element
  that is read for position \<open>k\<close> of the broadcast result of shape \<open>s\<close>: the leading
  dimensions the operand lacks are dropped, and a dimension of size 1 is read at 0.
\<close>

definition bindex :: "nat list \<Rightarrow> nat list \<Rightarrow> nat \<Rightarrow> nat" where
  "bindex s sa k =
     ravel sa (map2 (\<lambda>d i. if d = 1 then 0 else i) sa
                 (drop (length s - length sa) (unravel s k)))"

definition broadcast_binop ::
  "('a \<Rightarrow> 'b \<Rightarrow> 'c) \<Rightarrow> 'a tensor \<Rightarrow> 'b tensor \<Rightarrow> error + 'c tensor" where
  "broadcast_binop f A B =
     (case broadcast_shapes (shape A) (shape B) of
        None \<Rightarrow> Inl RuntimeError
      | Some s \<Rightarrow>
          Inr \<lparr>shape = s,
               storage = map (\<lambda>k. f (storage A ! bindex s (shape A) k)
                                    (storage B ! bindex s (shape B) k))
                             [0..<prod_list s]\<rparr>)"

section \<open>CenteredLayer\<close>

text \<open>
  \<^verbatim>\<open>
  class CenteredLayer(nn.Module):
      def forward(self, X):
          return X - X.mean()
  \<close>
  \<^verbatim>\<open>X.mean()\<close> is the sum of all elements divided by their number, in a tensor
  without dimensions. On an empty tensor it is 0/0, which floating-point arithmetic
  answers with NaN and not with an exception. The elements of this layer's tensors
  therefore are finite numbers, the two infinities or NaN, with the arithmetic of
  IEEE 754 on the special values.
\<close>

datatype fval = Fin real | PInf | NInf | NaN

fun fadd :: "fval \<Rightarrow> fval \<Rightarrow> fval" where
  "fadd (Fin a) (Fin b) = Fin (a + b)"
| "fadd NaN _ = NaN"
| "fadd _ NaN = NaN"
| "fadd PInf NInf = NaN"
| "fadd NInf PInf = NaN"
| "fadd PInf _ = PInf"
| "fadd _ PInf = PInf"
| "fadd NInf _ = NInf"
| "fadd _ NInf = NInf"

fun fneg :: "fval \<Rightarrow> fval" where
  "fneg (Fin a) = Fin (- a)"
| "fneg PInf = NInf"
| "fneg NInf = PInf"
| "fneg NaN = NaN"

definition fsub :: "fval \<Rightarrow> fval \<Rightarrow> fval" where
  "fsub a b = fadd a (fneg b)"

text \<open>Division by the number of elements, which is never negative.\<close>

fun fdiv_count :: "fval \<Rightarrow> nat \<Rightarrow> fval" where
  "fdiv_count (Fin a) n =
     (if n = 0 then (if a = 0 then NaN else if 0 < a then PInf else NInf)
      else Fin (a / real n))"
| "fdiv_count PInf n = PInf"
| "fdiv_count NInf n = NInf"
| "fdiv_count NaN n = NaN"

definition fsum :: "fval list \<Rightarrow> fval" where
  "fsum xs = foldl fadd (Fin 0) xs"

definition torch_mean :: "fval tensor \<Rightarrow> fval tensor" where
  "torch_mean X = \<lparr>shape = [], storage = [fdiv_count (fsum (storage X)) (numel X)]\<rparr>"

definition torch_sub :: "fval tensor \<Rightarrow> fval tensor \<Rightarrow> error + fval tensor" where
  "torch_sub A B = broadcast_binop fsub A B"

definition CenteredLayer_forward :: "fval tensor \<Rightarrow> error + fval tensor" where
  "CenteredLayer_forward X = torch_sub X (torch_mean X)"

section \<open>MyLinear\<close>

text \<open>
  \<^verbatim>\<open>
  class MyLinear(nn.Module):
      def __init__(self, in_units, units):
          super().__init__()
          self.weight = nn.Parameter(torch.randn(in_units, units))
          self.bias = nn.Parameter(torch.randn(units,))

      def forward(self, X):
          linear = torch.matmul(X, self.weight.data) + self.bias.data
          return F.relu(linear)
  \<close>
  A parameter is a tensor with the bookkeeping of automatic differentiation; a module
  carries its parameters and its training flag. \<^verbatim>\<open>torch.randn\<close> draws its samples
  from a source \<open>g\<close>, which the model takes as an argument and returns advanced.
\<close>

record Parameter =
  data :: "real tensor"
  requires_grad :: bool
  grad :: "real tensor option"

record MyLinear =
  weight :: Parameter
  bias :: Parameter
  training :: bool

definition torch_randn :: "nat list \<Rightarrow> (nat \<Rightarrow> real) \<Rightarrow> real tensor \<times> (nat \<Rightarrow> real)" where
  "torch_randn s g =
     (\<lparr>shape = s, storage = map g [0..<prod_list s]\<rparr>, \<lambda>i. g (i + prod_list s))"

definition nn_Parameter :: "real tensor \<Rightarrow> Parameter" where
  "nn_Parameter t = \<lparr>data = t, requires_grad = True, grad = None\<rparr>"

definition MyLinear_init :: "nat \<Rightarrow> nat \<Rightarrow> (nat \<Rightarrow> real) \<Rightarrow> MyLinear \<times> (nat \<Rightarrow> real)" where
  "MyLinear_init in_units units g =
     (let (w, g1) = torch_randn [in_units, units] g;
          (b, g2) = torch_randn [units] g1
      in (\<lparr>weight = nn_Parameter w, bias = nn_Parameter b, training = True\<rparr>, g2))"

text \<open>
  \<^verbatim>\<open>torch.matmul(A, B)\<close> for a matrix \<open>B\<close> of shape \<open>(p, q)\<close>, which the weight of
  a \<open>MyLinear\<close> always is. \<open>A\<close> needs at least one dimension and its last one must be
  \<open>p\<close>: sizes are never broadcast along the contracted dimension. The leading
  dimensions of \<open>A\<close> are kept, so \<open>A\<close> is read as a stack of rows of length \<open>p\<close>.
\<close>

definition torch_matmul :: "real tensor \<Rightarrow> real tensor \<Rightarrow> error + real tensor" where
  "torch_matmul A B =
     (case shape B of
        [p, q] \<Rightarrow>
          if shape A = [] then Inl RuntimeError
          else if last (shape A) \<noteq> p then Inl RuntimeError
          else Inr \<lparr>shape = butlast (shape A) @ [q],
                    storage = concat (map (\<lambda>r. map (\<lambda>c.
                        sum_list (map (\<lambda>i. storage A ! (r * p + i) * storage B ! (i * q + c)) [0..<p]))
                        [0..<q]) [0..<prod_list (butlast (shape A))])\<rparr>
      | _ \<Rightarrow> Inl NotModelled)"

definition torch_add :: "real tensor \<Rightarrow> real tensor \<Rightarrow> error + real tensor" where
  "torch_add A B = broadcast_binop (+) A B"

definition F_relu :: "real tensor \<Rightarrow> real tensor" where
  "F_relu A = \<lparr>shape = shape A, storage = map (\<lambda>v. max v 0) (storage A)\<rparr>"

text \<open>\<open>forward\<close> returns its result, or the exception raised, and the module as the
  call leaves it. Its local \<^verbatim>\<open>linear\<close> is \<open>lin\<close> here, \<open>linear\<close> being a constant of
  the library.\<close>

definition MyLinear_forward :: "MyLinear \<Rightarrow> real tensor \<Rightarrow> (error + real tensor) \<times> MyLinear" where
  "MyLinear_forward self X =
     (case torch_matmul X (data (weight self)) of
        Inl e \<Rightarrow> (Inl e, self)
      | Inr m \<Rightarrow>
          (case torch_add m (data (bias self)) of
             Inl e \<Rightarrow> (Inl e, self)
           | Inr lin \<Rightarrow> (Inr (F_relu lin), self)))"

text \<open>What the constructor establishes and an optimizer's updates of the values keep:
  the shapes of the two parameters.\<close>

definition MyLinear_inv :: "nat \<Rightarrow> nat \<Rightarrow> MyLinear \<Rightarrow> bool" where
  "MyLinear_inv in_units units self \<longleftrightarrow>
     shape (data (weight self)) = [in_units, units] \<and> wf_tensor (data (weight self)) \<and>
     shape (data (bias self)) = [units] \<and> wf_tensor (data (bias self))"

section \<open>TensorReductionLayer\<close>

text \<open>
  \<^verbatim>\<open>
  class TensorReductionLayer(nn.Module):
      def __init__(self, input_dim, output_dim):
          super(TensorReductionLayer, self).__init__()
          self.input_dim = input_dim
          self.output_dim = output_dim
          self.W = nn.Parameter(torch.randn(input_dim, input_dim, output_dim))

      def forward(self, x):
          # y_k = sum_ij W_ijk * x_i * x_j
          x_i = x.unsqueeze(-1)
          x_j = x.unsqueeze(1)
          result = x_i * x_j
          result = torch.einsum('nij,kij->nk', [result, self.W])
          return result
  \<close>
\<close>

record TensorReductionLayer =
  input_dim :: nat
  output_dim :: nat
  W :: Parameter

definition TensorReductionLayer_init ::
  "nat \<Rightarrow> nat \<Rightarrow> (nat \<Rightarrow> real) \<Rightarrow> TensorReductionLayer \<times> (nat \<Rightarrow> real)" where
  "TensorReductionLayer_init input_dim' output_dim' g =
     (let (w, g1) = torch_randn [input_dim', input_dim', output_dim'] g
      in (\<lparr>input_dim = input_dim', output_dim = output_dim', W = nn_Parameter w\<rparr>, g1))"

text \<open>
  \<^verbatim>\<open>t.unsqueeze(d)\<close> inserts a dimension of size 1 at position \<open>d\<close>, which may
  be any of \<open>-(rank + 1), \<dots>, rank\<close>; a negative one counts from the end.
\<close>

definition torch_unsqueeze :: "int \<Rightarrow> 'a tensor \<Rightarrow> error + 'a tensor" where
  "torch_unsqueeze d t =
     (let r = int (length (shape t)) in
      if d < - (r + 1) \<or> r < d then Inl IndexError
      else let p = nat (if d < 0 then d + r + 1 else d)
           in Inr \<lparr>shape = take p (shape t) @ [1] @ drop p (shape t), storage = storage t\<rparr>)"

definition torch_mul :: "real tensor \<Rightarrow> real tensor \<Rightarrow> error + real tensor" where
  "torch_mul A B = broadcast_binop (*) A B"

text \<open>
  \<^verbatim>\<open>torch.einsum('nij,kij->nk', [A, B])\<close>: both operands need three dimensions. The
  subscripts \<open>i\<close> and \<open>j\<close> name the second and third dimension of \<open>A\<close> and of \<open>B\<close>;
  the two sizes under one subscript must be equal, or one of them 1, which is then
  broadcast. The result has the first dimension of \<open>A\<close> and the first dimension of
  \<open>B\<close>, and sums the products over \<open>i\<close> and \<open>j\<close>.
\<close>

definition einsum_size :: "nat \<Rightarrow> nat \<Rightarrow> nat option" where
  "einsum_size a b = (if a = b \<or> b = 1 then Some a else if a = 1 then Some b else None)"

definition bcast :: "nat \<Rightarrow> nat \<Rightarrow> nat" where
  "bcast d i = (if d = 1 then 0 else i)"

definition torch_einsum_nij_kij_nk :: "real tensor \<Rightarrow> real tensor \<Rightarrow> error + real tensor" where
  "torch_einsum_nij_kij_nk A B =
     (case (shape A, shape B) of
        ([n, i1, j1], [k, i2, j2]) \<Rightarrow>
          (case (einsum_size i1 i2, einsum_size j1 j2) of
             (Some I, Some J) \<Rightarrow>
               Inr \<lparr>shape = [n, k],
                    storage = concat (map (\<lambda>a. map (\<lambda>c.
                        sum_list (map (\<lambda>i. sum_list (map (\<lambda>j.
                            elem A [a, bcast i1 i, bcast j1 j] * elem B [c, bcast i2 i, bcast j2 j])
                          [0..<J])) [0..<I]))
                      [0..<k]) [0..<n])\<rparr>
           | _ \<Rightarrow> Inl RuntimeError)
      | _ \<Rightarrow> Inl RuntimeError)"

definition TensorReductionLayer_forward ::
  "TensorReductionLayer \<Rightarrow> real tensor \<Rightarrow> error + real tensor" where
  "TensorReductionLayer_forward self x =
     (case torch_unsqueeze (- 1) x of
        Inl e \<Rightarrow> Inl e
      | Inr x_i \<Rightarrow>
          (case torch_unsqueeze 1 x of
             Inl e \<Rightarrow> Inl e
           | Inr x_j \<Rightarrow>
               (case torch_mul x_i x_j of
                  Inl e \<Rightarrow> Inl e
                | Inr result \<Rightarrow> torch_einsum_nij_kij_nk result (data (W self)))))"

section \<open>FourierCoefficientsLayer\<close>

text \<open>
  \<^verbatim>\<open>
  class FourierCoefficientsLayer(nn.Module):
      def forward(self, x):
          fft = torch.fft.fft(torch.tensor(x, dtype=torch.complex64))
          half = fft[:, :fft.shape[1] // 2]
          return half
  \<close>
  The input is a tensor of complex numbers, a real input being one whose elements have
  no imaginary part. \<^verbatim>\<open>torch.tensor(x, dtype=torch.complex64)\<close> copies it; in exact
  arithmetic the conversion of the elements changes nothing.
\<close>

definition torch_tensor_complex64 :: "complex tensor \<Rightarrow> complex tensor" where
  "torch_tensor_complex64 x = \<lparr>shape = shape x, storage = storage x\<rparr>"

text \<open>
  The discrete Fourier transform of one row, as \<^verbatim>\<open>torch.fft.fft\<close> documents it
  for its default normalization: \<open>X[k] = \<Sum>m. x[m] * exp (- 2\<pi>\<i> k m / n)\<close>, without a
  factor.
\<close>

definition dft :: "complex list \<Rightarrow> complex list" where
  "dft xs =
     (let n = length xs in
      map (\<lambda>k. sum_list (map (\<lambda>m.
             xs ! m * exp (- (2 * of_real pi * \<i> * of_nat k * of_nat m / of_nat n))) [0..<n]))
        [0..<n])"

text \<open>
  \<^verbatim>\<open>torch.fft.fft\<close> transforms along the last dimension, row by row. A tensor
  without dimensions has no last dimension (\<open>IndexError\<close>), and a last dimension of
  size 0 is refused (\<open>RuntimeError\<close>: invalid number of data points). A tensor
  without elements, one with no row to transform, is refused as well: the transform
  fails on it with a \<open>RuntimeError\<close>.
\<close>

definition torch_fft_fft :: "complex tensor \<Rightarrow> error + complex tensor" where
  "torch_fft_fft X =
     (if shape X = [] then Inl IndexError
      else let n = last (shape X) in
        if n < 1 then Inl RuntimeError
        else if numel X = 0 then Inl RuntimeError
        else Inr \<lparr>shape = shape X,
                  storage = concat (map (\<lambda>r. dft (take n (drop (r * n) (storage X))))
                                      [0..<prod_list (butlast (shape X))])\<rparr>)"

text \<open>
  The indexing \<^verbatim>\<open>t[:, :h]\<close> keeps the first dimension and the first \<open>h\<close> entries of
  the second; a tensor with fewer than two dimensions has too many indices
  (\<open>IndexError\<close>).
\<close>

definition index_all_upto :: "nat \<Rightarrow> 'a tensor \<Rightarrow> error + 'a tensor" where
  "index_all_upto h t =
     (case shape t of
        s0 # s1 # rest \<Rightarrow>
          Inr \<lparr>shape = s0 # min h s1 # rest,
               storage = concat (map (\<lambda>r. take (min h s1 * prod_list rest)
                                          (drop (r * (s1 * prod_list rest)) (storage t)))
                                   [0..<s0])\<rparr>
      | _ \<Rightarrow> Inl IndexError)"

text \<open>\<^verbatim>\<open>fft.shape[1]\<close> is read before the indexing and raises \<open>IndexError\<close> on a
  shape with fewer than two entries.\<close>

definition FourierCoefficientsLayer_forward :: "complex tensor \<Rightarrow> error + complex tensor" where
  "FourierCoefficientsLayer_forward x =
     (case torch_fft_fft (torch_tensor_complex64 x) of
        Inl e \<Rightarrow> Inl e
      | Inr fft \<Rightarrow>
          (case shape fft of
             s0 # s1 # rest \<Rightarrow> index_all_upto (s1 div 2) fft
           | _ \<Rightarrow> Inl IndexError))"

section \<open>Properties of broadcasting\<close>

lemma broadcast_rev_Nil2: "broadcast_rev xs [] = Some xs"
  by (cases xs) simp_all

lemma broadcast_shapes_scalar: "broadcast_shapes s [] = Some s"
  by (simp add: broadcast_shapes_def broadcast_rev_Nil2)

lemma bindex_scalar: "bindex s [] k = 0"
  by (simp add: bindex_def)

lemma length_unravel: "length (unravel s k) = length s"
  by (induction s arbitrary: k) simp_all

lemma ravel_unravel_same:
  "k < prod_list s \<Longrightarrow> ravel s (map2 (\<lambda>d i. if d = 1 then 0 else i) s (unravel s k)) = k"
proof (induction s arbitrary: k)
  case Nil
  then show ?case by simp
next
  case (Cons d ds)
  let ?P = "prod_list ds"
  from Cons.prems have lt: "k < d * ?P" by simp
  then have P: "0 < ?P" by (cases "?P = 0") simp_all
  then have "k mod ?P < ?P" by simp
  then have IH: "ravel ds (map2 (\<lambda>d i. if d = 1 then 0 else i) ds (unravel ds (k mod ?P))) = k mod ?P"
    by (rule Cons.IH)
  have "(if d = 1 then 0 else k div ?P) = k div ?P" using lt by auto
  then have "ravel (d # ds) (map2 (\<lambda>d i. if d = 1 then 0 else i) (d # ds) (unravel (d # ds) k))
      = k div ?P * ?P + k mod ?P"
    using IH by simp
  then show ?case by simp
qed

lemma bindex_same: "k < prod_list s \<Longrightarrow> bindex s s k = k"
  using ravel_unravel_same [of k s] by (simp add: bindex_def)

section \<open>Properties of CenteredLayer\<close>

lemma foldl_fadd_Fin: "foldl fadd (Fin a) (map Fin xs) = Fin (a + sum_list xs)"
  by (induction xs arbitrary: a) (simp_all add: add.assoc)

lemma fsum_Fin: "fsum (map Fin xs) = Fin (sum_list xs)"
  by (simp add: fsum_def foldl_fadd_Fin)

text \<open>
  Whatever the elements, finite or not, the result has the shape of the input and
  holds each element minus the mean.
\<close>

lemma CenteredLayer_forward_any:
  assumes "wf_tensor X"
  shows "CenteredLayer_forward X =
         Inr \<lparr>shape = shape X,
              storage = map (\<lambda>v. fsub v (fdiv_count (fsum (storage X)) (numel X))) (storage X)\<rparr>"
proof -
  let ?m = "fdiv_count (fsum (storage X)) (numel X)"
  have len: "length (storage X) = prod_list (shape X)"
    using assms by (simp add: wf_tensor_def)
  have "map (\<lambda>k. fsub (storage X ! bindex (shape X) (shape X) k) ?m) [0..<prod_list (shape X)]
      = map (\<lambda>v. fsub v ?m) (storage X)"
    using len by (intro nth_equalityI) (simp_all add: bindex_same)
  then show ?thesis
    by (simp add: CenteredLayer_forward_def torch_sub_def torch_mean_def broadcast_binop_def
        broadcast_shapes_scalar bindex_scalar)
qed

text \<open>On finite numbers the arithmetic is that of the reals.\<close>

lemma CenteredLayer_forward_Fin:
  assumes "prod_list s = length xs" and "xs \<noteq> []"
  shows "CenteredLayer_forward \<lparr>shape = s, storage = map Fin xs\<rparr> =
         Inr \<lparr>shape = s, storage = map (\<lambda>v. Fin (v - sum_list xs / real (length xs))) xs\<rparr>"
  using assms CenteredLayer_forward_any [of "\<lparr>shape = s, storage = map Fin xs\<rparr>"]
  by (simp add: wf_tensor_def numel_def fsum_Fin fsub_def comp_def)

lemma sum_list_centered:
  fixes xs :: "real list"
  shows "sum_list (map (\<lambda>v. v - c) xs) = sum_list xs - real (length xs) * c"
  by (induction xs) (simp_all add: algebra_simps)

text \<open>
  Claim C2. For a non-empty tensor of numbers, of any shape, the result of
  \<open>CenteredLayer_forward\<close> has the shape of the input, and its element at every
  position is the input's element there minus the arithmetic mean of all elements.
\<close>

theorem CenteredLayer_forward_sub_mean:
  assumes "prod_list s = length xs" and "xs \<noteq> []"
  shows "\<exists>Y. CenteredLayer_forward \<lparr>shape = s, storage = map Fin xs\<rparr> = Inr Y \<and>
           shape Y = s \<and> length (storage Y) = length xs \<and>
           (\<forall>i<length xs. storage Y ! i = Fin (xs ! i - sum_list xs / real (length xs)))"
  using assms by (simp add: CenteredLayer_forward_Fin)

theorem CenteredLayer_forward_sub_mean_witness:
  "\<exists>Y. CenteredLayer_forward \<lparr>shape = [5], storage = map Fin [1, 2, 3, 4, 5]\<rparr> = Inr Y \<and>
       shape Y = [5] \<and> length (storage Y) = 5 \<and>
       storage Y ! 0 = Fin (- 2) \<and> storage Y ! 1 = Fin (- 1) \<and> storage Y ! 2 = Fin 0 \<and>
       storage Y ! 3 = Fin 1 \<and> storage Y ! 4 = Fin 2"
  using CenteredLayer_forward_sub_mean [of "[5]" "[1, 2, 3, 4, 5]"] by auto

lemma torch_mean_centered:
  assumes "prod_list s = length xs" and "xs \<noteq> []"
  shows "torch_mean \<lparr>shape = s, storage = map (\<lambda>v. Fin (v - sum_list xs / real (length xs))) xs\<rparr>
         = \<lparr>shape = [], storage = [Fin 0]\<rparr>"
proof -
  have "map (\<lambda>v. Fin (v - sum_list xs / real (length xs))) xs
        = map Fin (map (\<lambda>v. v - sum_list xs / real (length xs)) xs)"
    by simp
  then have "fsum (map (\<lambda>v. Fin (v - sum_list xs / real (length xs))) xs)
        = Fin (sum_list xs - real (length xs) * (sum_list xs / real (length xs)))"
    by (simp only: fsum_Fin sum_list_centered)
  also have "\<dots> = Fin 0" using assms(2) by simp
  finally show ?thesis using assms by (simp add: torch_mean_def numel_def)
qed

text \<open>
  Claim C5 says that for every non-empty numeric array the mean of the output is
  zero, exactly or within floating-point tolerance. A floating-point array may hold an
  infinity: for \<open>x = [inf]\<close> the mean is \<open>inf\<close>, the output \<open>inf - inf\<close> is NaN, and
  so is the mean of the output.
\<close>

theorem CenteredLayer_infinite_mean_nan:
  "CenteredLayer_forward \<lparr>shape = [1], storage = [PInf]\<rparr> = Inr \<lparr>shape = [1], storage = [NaN]\<rparr> \<and>
   torch_mean \<lparr>shape = [1], storage = [NaN]\<rparr> = \<lparr>shape = [], storage = [NaN]\<rparr>"
  by (simp add: CenteredLayer_forward_any wf_tensor_def numel_def torch_mean_def fsum_def
      fsub_def)

text \<open>
  Claim C5, amended. For every non-empty tensor of finite numbers, of any shape, in
  exact arithmetic: the output of \<open>CenteredLayer_forward\<close> has the shape of the input
  and as many elements, all finite; they sum to zero, so their arithmetic mean, the sum
  divided by their number, is exactly zero, and that is also what \<^verbatim>\<open>mean\<close> returns on
  the output. Nothing is said about rounding.
\<close>

theorem CenteredLayer_output_mean_zero:
  assumes "prod_list s = length xs" and "xs \<noteq> []"
  shows "\<exists>ys. CenteredLayer_forward \<lparr>shape = s, storage = map Fin xs\<rparr>
                = Inr \<lparr>shape = s, storage = map Fin ys\<rparr> \<and>
           length ys = length xs \<and> sum_list ys = 0 \<and>
           sum_list ys / real (length ys) = 0 \<and>
           torch_mean \<lparr>shape = s, storage = map Fin ys\<rparr> = \<lparr>shape = [], storage = [Fin 0]\<rparr>"
proof -
  let ?m = "sum_list xs / real (length xs)"
  let ?ys = "map (\<lambda>v. v - ?m) xs"
  have fwd: "CenteredLayer_forward \<lparr>shape = s, storage = map Fin xs\<rparr>
               = Inr \<lparr>shape = s, storage = map Fin ?ys\<rparr>"
    using assms by (simp add: CenteredLayer_forward_Fin comp_def)
  have zero: "sum_list ?ys = 0"
    using assms(2) by (simp add: sum_list_centered)
  have "torch_mean \<lparr>shape = s, storage = map Fin ?ys\<rparr> = \<lparr>shape = [], storage = [Fin 0]\<rparr>"
    using torch_mean_centered [OF assms] by (simp add: comp_def)
  with fwd zero show ?thesis
    by (intro exI [of _ ?ys]) simp
qed

theorem CenteredLayer_output_mean_zero_witness:
  "\<exists>ys. CenteredLayer_forward \<lparr>shape = [2, 2], storage = map Fin [1, 2, 3, 6]\<rparr>
            = Inr \<lparr>shape = [2, 2], storage = map Fin ys\<rparr> \<and>
       length ys = length [1, 2, 3, 6 :: real] \<and> sum_list ys = 0 \<and>
       sum_list ys / real (length ys) = 0 \<and>
       torch_mean \<lparr>shape = [2, 2], storage = map Fin ys\<rparr> = \<lparr>shape = [], storage = [Fin 0]\<rparr>"
  by (rule CenteredLayer_output_mean_zero) simp_all

text \<open>
  Claim C10. In exact arithmetic \<open>CenteredLayer_forward\<close> is idempotent on non-empty
  tensors of numbers: applied to its own output it returns that output unchanged.
\<close>

theorem CenteredLayer_idempotent:
  assumes "prod_list s = length xs" and "xs \<noteq> []"
  shows "\<exists>Y. CenteredLayer_forward \<lparr>shape = s, storage = map Fin xs\<rparr> = Inr Y \<and>
           CenteredLayer_forward Y = Inr Y"
proof -
  let ?m = "sum_list xs / real (length xs)"
  let ?ys = "map (\<lambda>v. v - ?m) xs"
  have fwd: "CenteredLayer_forward \<lparr>shape = s, storage = map Fin xs\<rparr>
               = Inr \<lparr>shape = s, storage = map Fin ?ys\<rparr>"
    using assms by (simp add: CenteredLayer_forward_Fin comp_def)
  have zero: "sum_list ?ys = 0"
    using assms(2) by (simp add: sum_list_centered)
  have "prod_list s = length ?ys" and "?ys \<noteq> []" using assms by simp_all
  then have "CenteredLayer_forward \<lparr>shape = s, storage = map Fin ?ys\<rparr>
               = Inr \<lparr>shape = s, storage = map (\<lambda>v. Fin (v - sum_list ?ys / real (length ?ys))) ?ys\<rparr>"
    by (rule CenteredLayer_forward_Fin)
  then have "CenteredLayer_forward \<lparr>shape = s, storage = map Fin ?ys\<rparr>
               = Inr \<lparr>shape = s, storage = map Fin ?ys\<rparr>"
    by (simp only: zero) (simp add: comp_def)
  with fwd show ?thesis by simp
qed

theorem CenteredLayer_idempotent_witness:
  "\<exists>Y. CenteredLayer_forward \<lparr>shape = [3], storage = map Fin [1, 2, 6]\<rparr> = Inr Y \<and>
       CenteredLayer_forward Y = Inr Y"
  using CenteredLayer_idempotent [of "[3]" "[1, 2, 6]"] by simp

text \<open>
  Claim C7 says that an empty input is rejected with an error. The layer has no check:
  on the empty tensor of shape \<open>(0,)\<close> it returns the empty tensor.
\<close>

theorem CenteredLayer_empty_not_rejected:
  "CenteredLayer_forward \<lparr>shape = [0], storage = []\<rparr> = Inr \<lparr>shape = [0], storage = []\<rparr>"
  by (simp add: CenteredLayer_forward_def torch_sub_def torch_mean_def broadcast_binop_def
      broadcast_shapes_scalar)

text \<open>
  Claim C7, amended. For every well-formed tensor without elements,
  \<open>CenteredLayer_forward\<close> raises nothing and returns the input, an empty tensor of the
  same shape; the mean it computes on the way is NaN, and the result, having no
  elements, contains none.
\<close>

theorem CenteredLayer_empty_returns_empty:
  assumes "wf_tensor X" and "numel X = 0"
  shows "torch_mean X = \<lparr>shape = [], storage = [NaN]\<rparr> \<and> CenteredLayer_forward X = Inr X"
  using assms
  by (simp add: CenteredLayer_forward_def torch_sub_def torch_mean_def broadcast_binop_def
      broadcast_shapes_scalar wf_tensor_def numel_def fsum_def)

theorem CenteredLayer_empty_returns_empty_witness:
  "wf_tensor \<lparr>shape = [2, 0], storage = ([] :: fval list)\<rparr> \<and>
   numel \<lparr>shape = [2, 0], storage = ([] :: fval list)\<rparr> = 0 \<and>
   torch_mean \<lparr>shape = [2, 0], storage = []\<rparr> = \<lparr>shape = [], storage = [NaN]\<rparr> \<and>
   CenteredLayer_forward \<lparr>shape = [2, 0], storage = []\<rparr> = Inr \<lparr>shape = [2, 0], storage = []\<rparr>"
  using CenteredLayer_empty_returns_empty [of "\<lparr>shape = [2, 0], storage = []\<rparr>"]
  by (simp add: wf_tensor_def numel_def)

section \<open>Properties of MyLinear\<close>

lemma length_concat_uniform:
  "(\<And>r. r < R \<Longrightarrow> length (F r) = C) \<Longrightarrow> length (concat (map F [0..<R])) = R * C"
  by (induction R) simp_all

lemma nth_concat_uniform:
  assumes "\<And>r. r < R \<Longrightarrow> length (F r) = C" and "r < R" and "c < C"
  shows "concat (map F [0..<R]) ! (r * C + c) = F r ! c"
  using assms
proof (induction R)
  case 0
  then show ?case by simp
next
  case (Suc R)
  have len: "length (concat (map F [0..<R])) = R * C"
    using Suc.prems(1) by (intro length_concat_uniform) simp
  show ?case
  proof (cases "r < R")
    case True
    then have "Suc r \<le> R" by simp
    then have "Suc r * C \<le> R * C" by (rule mult_le_mono1)
    then have "r * C + c < R * C" using \<open>c < C\<close> by simp
    moreover have "concat (map F [0..<R]) ! (r * C + c) = F r ! c"
      using Suc.IH [OF _ True \<open>c < C\<close>] Suc.prems(1) by simp
    ultimately show ?thesis by (simp add: nth_append len)
  next
    case False
    with Suc.prems(2) have "r = R" by simp
    then show ?thesis by (simp add: nth_append len)
  qed
qed

lemma MyLinear_init_inv: "MyLinear_inv in_units units (fst (MyLinear_init in_units units g))"
  by (simp add: MyLinear_init_def MyLinear_inv_def torch_randn_def nn_Parameter_def wf_tensor_def)

lemma bindex_row:
  assumes "k < q"
  shows "bindex [b, q] [q] (n * q + k) = k"
  using assms by (simp add: bindex_def)

lemma broadcast_shapes_row: "broadcast_shapes [b, q] [q] = Some [b, q]"
  by (simp add: broadcast_shapes_def)

lemma torch_matmul_2d:
  assumes "shape A = [b, p]" and "shape B = [p, q]"
  shows "torch_matmul A B =
         Inr \<lparr>shape = [b, q],
              storage = concat (map (\<lambda>r. map (\<lambda>c.
                  sum_list (map (\<lambda>i. storage A ! (r * p + i) * storage B ! (i * q + c)) [0..<p]))
                  [0..<q]) [0..<b])\<rparr>"
  using assms by (simp add: torch_matmul_def)

lemma torch_add_row:
  assumes "shape M = [b, q]" and "shape B = [q]"
  shows "torch_add M B =
         Inr \<lparr>shape = [b, q],
              storage = map (\<lambda>j. storage M ! j + storage B ! bindex [b, q] [q] j) [0..<b * q]\<rparr>"
proof -
  have "map (\<lambda>j. storage M ! bindex [b, q] [b, q] j + storage B ! bindex [b, q] [q] j) [0..<b * q]
      = map (\<lambda>j. storage M ! j + storage B ! bindex [b, q] [q] j) [0..<b * q]"
    by (intro map_cong refl) (simp add: bindex_same)
  then show ?thesis
    using assms by (simp add: torch_add_def broadcast_binop_def broadcast_shapes_row)
qed

lemma MyLinear_forward_2d:
  assumes "MyLinear_inv p q self" and "shape X = [b, p]"
  shows "fst (MyLinear_forward self X) =
         Inr \<lparr>shape = [b, q],
              storage = map (\<lambda>j. max (concat (map (\<lambda>r. map (\<lambda>c.
                  sum_list (map (\<lambda>i. storage X ! (r * p + i) * storage (data (weight self)) ! (i * q + c)) [0..<p]))
                  [0..<q]) [0..<b]) ! j + storage (data (bias self)) ! bindex [b, q] [q] j) 0) [0..<b * q]\<rparr>"
proof -
  have w: "shape (data (weight self)) = [p, q]" and bs: "shape (data (bias self)) = [q]"
    using assms(1) by (simp_all add: MyLinear_inv_def)
  show ?thesis
    by (simp add: MyLinear_forward_def torch_matmul_2d [OF assms(2) w]
        torch_add_row [where b = b and q = q, OF _ bs] F_relu_def comp_def)
qed

text \<open>
  Claim C3. For a \<open>MyLinear\<close> with weight of shape \<open>(in_units, units)\<close> and bias of
  shape \<open>(units,)\<close>, and an input of shape \<open>(batch, in_units)\<close>, \<open>forward\<close> returns a
  tensor of shape \<open>(batch, units)\<close> whose element \<open>[n, k]\<close> is the maximum of 0 and
  \<open>\<Sum>i. X[n, i] * W[i, k] + b[k]\<close>: the matrix product, the bias added to every row,
  then the rectifier. Every element is at least 0. The batch may have any size.
\<close>

theorem MyLinear_forward_relu_affine:
  assumes "MyLinear_inv in_units units self"
    and "shape X = [batch, in_units]" and "wf_tensor X"
  shows "\<exists>Y. fst (MyLinear_forward self X) = Inr Y \<and> shape Y = [batch, units] \<and>
           wf_tensor Y \<and>
           (\<forall>n<batch. \<forall>k<units.
              elem Y [n, k] =
                max ((\<Sum>i<in_units. elem X [n, i] * elem (data (weight self)) [i, k])
                       + elem (data (bias self)) [k]) 0 \<and>
              0 \<le> elem Y [n, k])"
proof -
  let ?W = "data (weight self)" and ?B = "data (bias self)"
  let ?row = "\<lambda>r. map (\<lambda>c.
      sum_list (map (\<lambda>i. storage X ! (r * in_units + i) * storage ?W ! (i * units + c)) [0..<in_units]))
      [0..<units]"
  let ?Y = "\<lparr>shape = [batch, units],
      storage = map (\<lambda>j. max (concat (map ?row [0..<batch]) ! j
                   + storage ?B ! bindex [batch, units] [units] j) 0) [0..<batch * units]\<rparr>"
  have w: "shape ?W = [in_units, units]" and bs: "shape ?B = [units]"
    using assms(1) by (simp_all add: MyLinear_inv_def)
  have fwd: "fst (MyLinear_forward self X) = Inr ?Y"
    using assms(1,2) by (rule MyLinear_forward_2d)
  have el: "elem ?Y [n, k] =
              max ((\<Sum>i<in_units. elem X [n, i] * elem ?W [i, k]) + elem ?B [k]) 0"
    if "n < batch" and "k < units" for n k
  proof -
    have "Suc n \<le> batch" using that(1) by simp
    then have "Suc n * units \<le> batch * units" by (rule mult_le_mono1)
    then have j: "n * units + k < batch * units" using that(2) by simp
    have "concat (map ?row [0..<batch]) ! (n * units + k) = ?row n ! k"
      using that by (intro nth_concat_uniform) simp_all
    also have "\<dots> = (\<Sum>i<in_units. storage X ! (n * in_units + i) * storage ?W ! (i * units + k))"
      using that(2) by (simp add: interv_sum_list_conv_sum_set_nat atLeast0LessThan)
    finally have m: "concat (map ?row [0..<batch]) ! (n * units + k) =
        (\<Sum>i<in_units. storage X ! (n * in_units + i) * storage ?W ! (i * units + k))" .
    have "elem ?Y [n, k] = storage ?Y ! (n * units + k)" by (simp add: elem_def)
    also have "\<dots> = max (concat (map ?row [0..<batch]) ! (n * units + k) + storage ?B ! k) 0"
      using j that(2) by (simp add: bindex_row del: upt_Suc)
    finally show ?thesis
      using assms(2) w bs by (simp add: m elem_def)
  qed
  have "0 \<le> elem ?Y [n, k]" if "n < batch" and "k < units" for n k
    using el [OF that] by simp
  moreover have "wf_tensor ?Y" by (simp add: wf_tensor_def)
  ultimately show ?thesis using fwd el by auto
qed

theorem MyLinear_forward_relu_affine_witness:
  "\<exists>Y. fst (MyLinear_forward
          \<lparr>weight = nn_Parameter \<lparr>shape = [2, 2], storage = [1, - 1, 2, 0]\<rparr>,
           bias = nn_Parameter \<lparr>shape = [2], storage = [1, - 10]\<rparr>, training = True\<rparr>
          \<lparr>shape = [1, 2], storage = [1, 2]\<rparr>) = Inr Y \<and>
       shape Y = [1, 2] \<and> elem Y [0, 0] = 6 \<and> elem Y [0, 1] = 0"
  using MyLinear_forward_relu_affine [of 2 2
      "\<lparr>weight = nn_Parameter \<lparr>shape = [2, 2], storage = [1, - 1, 2, 0]\<rparr>,
        bias = nn_Parameter \<lparr>shape = [2], storage = [1, - 10]\<rparr>, training = True\<rparr>"
      "\<lparr>shape = [1, 2], storage = [1, 2]\<rparr>" 1]
  by (auto simp add: MyLinear_inv_def nn_Parameter_def wf_tensor_def elem_def lessThan_Suc
      numeral_2_eq_2)

text \<open>
  Claim C8. When the last dimension of the input is not \<open>in_units\<close>, or the input has
  no dimension at all, \<open>forward\<close> fails with the \<open>RuntimeError\<close> of the matrix
  product; no result is built by broadcasting.
\<close>

theorem MyLinear_forward_shape_mismatch:
  assumes "MyLinear_inv in_units units self"
    and "shape X = [] \<or> last (shape X) \<noteq> in_units"
  shows "fst (MyLinear_forward self X) = Inl RuntimeError"
proof -
  have "shape (data (weight self)) = [in_units, units]"
    using assms(1) by (simp add: MyLinear_inv_def)
  then have "torch_matmul X (data (weight self)) = Inl RuntimeError"
    using assms(2) by (auto simp add: torch_matmul_def)
  then show ?thesis by (simp add: MyLinear_forward_def)
qed

theorem MyLinear_forward_shape_mismatch_witness:
  "fst (MyLinear_forward (fst (MyLinear_init 5 3 (\<lambda>i. real i)))
          \<lparr>shape = [2, 4], storage = [1, 2, 3, 4, 5, 6, 7, 8]\<rparr>) = Inl RuntimeError"
  using MyLinear_forward_shape_mismatch [of 5 3 "fst (MyLinear_init 5 3 (\<lambda>i. real i))"
      "\<lparr>shape = [2, 4], storage = [1, 2, 3, 4, 5, 6, 7, 8]\<rparr>"]
  by (simp add: MyLinear_init_inv)

text \<open>
  Claim C9. \<open>forward\<close> leaves the module, and with it weight and bias, as it found it,
  and its outcome depends on the module only through the values of weight and bias:
  two modules that agree on them give the same outcome on the same input.
\<close>

theorem MyLinear_forward_frame:
  "snd (MyLinear_forward self X) = self \<and>
   (data (weight self) = data (weight self') \<and> data (bias self) = data (bias self') \<longrightarrow>
      fst (MyLinear_forward self X) = fst (MyLinear_forward self' X))"
  by (simp add: MyLinear_forward_def split: sum.splits)

theorem MyLinear_forward_frame_witness:
  "snd (MyLinear_forward
          \<lparr>weight = nn_Parameter \<lparr>shape = [1, 1], storage = [2]\<rparr>,
           bias = nn_Parameter \<lparr>shape = [1], storage = [1]\<rparr>, training = True\<rparr>
          \<lparr>shape = [1, 1], storage = [3]\<rparr>)
     = \<lparr>weight = nn_Parameter \<lparr>shape = [1, 1], storage = [2]\<rparr>,
        bias = nn_Parameter \<lparr>shape = [1], storage = [1]\<rparr>, training = True\<rparr> \<and>
   fst (MyLinear_forward
          \<lparr>weight = nn_Parameter \<lparr>shape = [1, 1], storage = [2]\<rparr>,
           bias = nn_Parameter \<lparr>shape = [1], storage = [1]\<rparr>, training = True\<rparr>
          \<lparr>shape = [1, 1], storage = [3]\<rparr>)
     = fst (MyLinear_forward
          \<lparr>weight = \<lparr>data = \<lparr>shape = [1, 1], storage = [2]\<rparr>, requires_grad = False,
                     grad = Some \<lparr>shape = [1, 1], storage = [7]\<rparr>\<rparr>,
           bias = nn_Parameter \<lparr>shape = [1], storage = [1]\<rparr>, training = False\<rparr>
          \<lparr>shape = [1, 1], storage = [3]\<rparr>)"
  using MyLinear_forward_frame [of
      "\<lparr>weight = nn_Parameter \<lparr>shape = [1, 1], storage = [2]\<rparr>,
        bias = nn_Parameter \<lparr>shape = [1], storage = [1]\<rparr>, training = True\<rparr>"
      "\<lparr>shape = [1, 1], storage = [3]\<rparr>"
      "\<lparr>weight = \<lparr>data = \<lparr>shape = [1, 1], storage = [2]\<rparr>, requires_grad = False,
                     grad = Some \<lparr>shape = [1, 1], storage = [7]\<rparr>\<rparr>,
        bias = nn_Parameter \<lparr>shape = [1], storage = [1]\<rparr>, training = False\<rparr>"]
  by (simp add: nn_Parameter_def)

section \<open>Properties of TensorReductionLayer\<close>

text \<open>
  Claim C1 says that \<open>forward\<close> returns, for an input of shape \<open>(batch, input_dim)\<close>,
  a tensor of shape \<open>(batch, output_dim)\<close> with
  \<open>y[n, k] = \<Sum>i j. W[i, j, k] * x[n, i] * x[n, j]\<close>, as the comment in \<open>forward\<close> also
  says. The subscripts given to \<^verbatim>\<open>einsum\<close> read \<open>W\<close> as \<open>W[k, i, j]\<close> instead. With
  \<open>input_dim = 2\<close>, \<open>output_dim = 3\<close>, \<open>W\<close> all ones and \<open>x = [[1, 2]]\<close> the sizes under
  the subscript \<open>j\<close> are 2 and 3, and \<open>forward\<close> raises instead of returning
  \<open>[[9, 9, 9]]\<close>.
\<close>

theorem TensorReductionLayer_forward_2_3_raises:
  "TensorReductionLayer_forward
     \<lparr>input_dim = 2, output_dim = 3,
      W = nn_Parameter \<lparr>shape = [2, 2, 3], storage = replicate 12 1\<rparr>\<rparr>
     \<lparr>shape = [1, 2], storage = [1, 2]\<rparr> = Inl RuntimeError"
  by code_simp

text \<open>
  With \<open>input_dim = output_dim\<close> the call goes through and returns the sums over
  \<open>W[k, i, j]\<close>: for \<open>W\<close> zero except \<open>W[0, 0, 1] = 1\<close> and \<open>x = [[1, 0]]\<close> the
  result is \<open>[[0, 0]]\<close>, where the sums over \<open>W[i, j, k]\<close> are \<open>[[0, 1]]\<close>. For \<open>W\<close> all
  ones the two readings agree.
\<close>

lemma TensorReductionLayer_forward_2_2_transposed:
  "TensorReductionLayer_forward
     \<lparr>input_dim = 2, output_dim = 2,
      W = nn_Parameter \<lparr>shape = [2, 2, 2], storage = [0, 1, 0, 0, 0, 0, 0, 0]\<rparr>\<rparr>
     \<lparr>shape = [1, 2], storage = [1, 0]\<rparr> = Inr \<lparr>shape = [1, 2], storage = [0, 0]\<rparr>"
  by code_simp

lemma TensorReductionLayer_forward_2_2_ones:
  "TensorReductionLayer_forward
     \<lparr>input_dim = 2, output_dim = 2,
      W = nn_Parameter \<lparr>shape = [2, 2, 2], storage = replicate 8 1\<rparr>\<rparr>
     \<lparr>shape = [1, 2], storage = [1, 2]\<rparr> = Inr \<lparr>shape = [1, 2], storage = [9, 9]\<rparr>"
  by code_simp

text \<open>
  In general: for an input of shape \<open>(b, d)\<close>, the product of the two unsqueezed
  copies has shape \<open>(b, d, d)\<close> and holds \<open>x[n, i] * x[n, j]\<close> at \<open>[n, i, j]\<close>.
\<close>

lemma div_mod_block:
  fixes D :: nat
  assumes "r < D"
  shows "(n * D + r) div D = n" and "(n * D + r) mod D = r"
  using assms by simp_all

lemma unravel_3d:
  assumes "i < d" and "j < e"
  shows "unravel [b, d, e] (n * (d * e) + (i * e + j)) = [n, i, j]"
proof -
  have "Suc i \<le> d" using assms(1) by simp
  then have "Suc i * e \<le> d * e" by (rule mult_le_mono1)
  then have lt: "i * e + j < d * e" using assms(2) by simp
  have 1: "(n * (d * e) + (i * e + j)) div (d * e) = n" using lt by (rule div_mod_block)
  have 2: "(n * (d * e) + (i * e + j)) mod (d * e) = i * e + j" using lt by (rule div_mod_block)
  have 3: "(i * e + j) div e = i" using assms(2) by (rule div_mod_block)
  have 4: "(i * e + j) mod e = j" using assms(2) by (rule div_mod_block)
  have 5: "(i * e + j) mod (d * e) = i * e + j" using lt by simp
  show ?thesis using assms(2) by (simp add: 1 2 3 4 5)
qed

lemma bindex_outer_left:
  assumes "n < b" and "i < d" and "j < d"
  shows "bindex [b, d, d] [b, d, Suc 0] (n * (d * d) + (i * d + j)) = n * d + i"
  using assms by (auto simp add: bindex_def unravel_3d simp del: unravel.simps)

lemma bindex_outer_right:
  assumes "n < b" and "i < d" and "j < d"
  shows "bindex [b, d, d] [b, Suc 0, d] (n * (d * d) + (i * d + j)) = n * d + j"
  using assms by (auto simp add: bindex_def unravel_3d simp del: unravel.simps)

lemma broadcast_shapes_outer: "broadcast_shapes [b, d, Suc 0] [b, Suc 0, d] = Some [b, d, d]"
  by (simp add: broadcast_shapes_def)

lemma torch_unsqueeze_last_2d:
  "shape x = [b, d] \<Longrightarrow> torch_unsqueeze (- 1) x = Inr \<lparr>shape = [b, d, 1], storage = storage x\<rparr>"
  by (simp add: torch_unsqueeze_def)

lemma torch_unsqueeze_1_2d:
  "shape x = [b, d] \<Longrightarrow> torch_unsqueeze 1 x = Inr \<lparr>shape = [b, 1, d], storage = storage x\<rparr>"
  by (simp add: torch_unsqueeze_def)

lemma index_bound_3d:
  assumes "n < (b::nat)" and "i < d" and "j < e"
  shows "n * (d * e) + (i * e + j) < b * (d * e)"
proof -
  have "Suc i \<le> d" using assms(2) by simp
  then have "Suc i * e \<le> d * e" by (rule mult_le_mono1)
  then have lt: "i * e + j < d * e" using assms(3) by simp
  have "Suc n \<le> b" using assms(1) by simp
  then have "Suc n * (d * e) \<le> b * (d * e)" by (rule mult_le_mono1)
  then show ?thesis using lt by simp
qed

text \<open>
  When \<open>input_dim\<close> and \<open>output_dim\<close> differ and neither is 1, \<^verbatim>\<open>einsum\<close> finds
  the sizes \<open>input_dim\<close> and \<open>output_dim\<close> under the subscript \<open>j\<close> and raises.
\<close>

lemma TensorReductionLayer_forward_mismatch:
  assumes "shape x = [b, d]" and "shape (data (W self)) = [d, d, q]"
    and "d \<noteq> q" and "d \<noteq> 1" and "q \<noteq> 1"
  shows "TensorReductionLayer_forward self x = Inl RuntimeError"
  using assms
  by (simp add: TensorReductionLayer_forward_def torch_unsqueeze_last_2d torch_unsqueeze_1_2d
      torch_mul_def broadcast_binop_def broadcast_shapes_outer torch_einsum_nij_kij_nk_def
      einsum_size_def)

text \<open>
  When the two are equal, \<open>forward\<close> returns the sums with \<open>W\<close> read as
  \<open>W[k, i, j]\<close>.
\<close>

lemma TensorReductionLayer_forward_square:
  assumes "shape x = [b, d]" and "shape (data (W self)) = [d, d, d]"
  shows "\<exists>Y. TensorReductionLayer_forward self x = Inr Y \<and> shape Y = [b, d] \<and>
           (\<forall>n<b. \<forall>k<d. elem Y [n, k] =
              (\<Sum>i<d. \<Sum>j<d. elem (data (W self)) [k, i, j] * elem x [n, i] * elem x [n, j]))"
proof -
  let ?xs = "storage x" and ?V = "data (W self)"
  let ?P = "\<lparr>shape = [b, d, d],
             storage = map (\<lambda>k. ?xs ! bindex [b, d, d] [b, d, Suc 0] k
                                  * ?xs ! bindex [b, d, d] [b, Suc 0, d] k)
                         [0..<b * (d * d)]\<rparr>"
  let ?cell = "\<lambda>a c. sum_list (map (\<lambda>i. sum_list (map (\<lambda>j.
        elem ?P [a, bcast d i, bcast d j] * elem ?V [c, bcast d i, bcast d j]) [0..<d])) [0..<d])"
  let ?Y = "\<lparr>shape = [b, d], storage = concat (map (\<lambda>a. map (?cell a) [0..<d]) [0..<b])\<rparr>"
  have mul: "torch_mul \<lparr>shape = [b, d, Suc 0], storage = ?xs\<rparr>
      \<lparr>shape = [b, Suc 0, d], storage = ?xs\<rparr> = Inr ?P"
    by (simp add: torch_mul_def broadcast_binop_def broadcast_shapes_outer)
  have fwd: "TensorReductionLayer_forward self x = Inr ?Y"
    using assms
    by (simp add: TensorReductionLayer_forward_def torch_unsqueeze_last_2d torch_unsqueeze_1_2d
        mul torch_einsum_nij_kij_nk_def einsum_size_def del: upt_Suc)
  have P: "elem ?P [n, i, j] = elem x [n, i] * elem x [n, j]"
    if "n < b" and "i < d" and "j < d" for n i j
  proof -
    have "elem ?P [n, i, j] = storage ?P ! (n * (d * d) + (i * d + j))"
      by (simp add: elem_def)
    also have "\<dots> = ?xs ! (n * d + i) * ?xs ! (n * d + j)"
      using index_bound_3d [OF that] that
      by (simp add: bindex_outer_left bindex_outer_right del: upt_Suc)
    finally show ?thesis using assms(1) by (simp add: elem_def)
  qed
  have el: "elem ?Y [n, k] =
      (\<Sum>i<d. \<Sum>j<d. elem ?V [k, i, j] * elem x [n, i] * elem x [n, j])"
    if "n < b" and "k < d" for n k
  proof -
    have "elem ?Y [n, k] = concat (map (\<lambda>a. map (?cell a) [0..<d]) [0..<b]) ! (n * d + k)"
      by (simp add: elem_def)
    also have "\<dots> = map (?cell n) [0..<d] ! k"
      using that by (intro nth_concat_uniform) simp_all
    also have "\<dots> = ?cell n k" using that(2) by simp
    also have "\<dots> = (\<Sum>i<d. \<Sum>j<d. elem ?P [n, bcast d i, bcast d j] * elem ?V [k, bcast d i, bcast d j])"
      by (simp add: interv_sum_list_conv_sum_set_nat atLeast0LessThan)
    also have "\<dots> = (\<Sum>i<d. \<Sum>j<d. elem ?V [k, i, j] * elem x [n, i] * elem x [n, j])"
    proof (intro sum.cong refl)
      fix i j assume "i \<in> {..<d}" and "j \<in> {..<d}"
      then have ij: "i < d" "j < d" by simp_all
      then have "bcast d i = i" "bcast d j = j" by (auto simp add: bcast_def)
      then show "elem ?P [n, bcast d i, bcast d j] * elem ?V [k, bcast d i, bcast d j]
          = elem ?V [k, i, j] * elem x [n, i] * elem x [n, j]"
        using P [OF that(1) ij] by (simp only:) simp
    qed
    finally show ?thesis .
  qed
  from fwd el show ?thesis by auto
qed

section \<open>Properties of FourierCoefficientsLayer\<close>

lemma length_dft: "length (dft xs) = length xs"
  by (simp add: dft_def Let_def)

lemma nth_dft:
  "k < length xs \<Longrightarrow>
   dft xs ! k = (\<Sum>m<length xs. xs ! m *
       exp (- (2 * of_real pi * \<i> * of_nat k * of_nat m / of_nat (length xs))))"
  by (simp add: dft_def Let_def interv_sum_list_conv_sum_set_nat atLeast0LessThan)

lemma row_bound:
  assumes "r < (b::nat)"
  shows "r * n + n \<le> b * n"
proof -
  have "Suc r \<le> b" using assms by simp
  then have "Suc r * n \<le> b * n" by (rule mult_le_mono1)
  then show ?thesis by (simp add: add.commute)
qed

lemma length_row:
  assumes "length xs = b * n" and "r < b" and "h \<le> n"
  shows "length (take h (drop (r * n) xs)) = h"
  using row_bound [OF assms(2), of n] assms(1,3) by simp

lemma nth_row:
  assumes "length xs = b * n" and "r < b" and "m < h" and "h \<le> n"
  shows "take h (drop (r * n) xs) ! m = xs ! (r * n + m)"
proof -
  have "r \<le> b" using assms(2) by simp
  then have "r * n \<le> b * n" by (rule mult_le_mono1)
  then have "r * n \<le> length xs" by (simp only: assms(1))
  then have "drop (r * n) xs ! m = xs ! (r * n + m)" by (rule nth_drop)
  then show ?thesis using assms(3) by simp
qed

lemma torch_fft_fft_2d:
  assumes "shape X = [b, n]" and "0 < n" and "0 < b"
  shows "torch_fft_fft X =
         Inr \<lparr>shape = [b, n],
              storage = concat (map (\<lambda>r. dft (take n (drop (r * n) (storage X)))) [0..<b])\<rparr>"
  using assms by (simp add: torch_fft_fft_def numel_def)

lemma FourierCoefficientsLayer_forward_2d:
  assumes "shape x = [b, n]" and "0 < n" and "0 < b"
  shows "FourierCoefficientsLayer_forward x =
         Inr \<lparr>shape = [b, n div 2],
              storage = concat (map (\<lambda>r. take (n div 2) (drop (r * n)
                  (concat (map (\<lambda>r. dft (take n (drop (r * n) (storage x)))) [0..<b]))))
                [0..<b])\<rparr>"
proof -
  have "torch_fft_fft (torch_tensor_complex64 x) =
         Inr \<lparr>shape = [b, n],
              storage = concat (map (\<lambda>r. dft (take n (drop (r * n) (storage x)))) [0..<b])\<rparr>"
    using torch_fft_fft_2d [of "torch_tensor_complex64 x" b n] assms
    by (simp add: torch_tensor_complex64_def)
  then show ?thesis
    by (simp add: FourierCoefficientsLayer_forward_def index_all_upto_def min_def)
qed

lemma torch_fft_fft_empty:
  assumes "shape X \<noteq> []" and "numel X = 0"
  shows "torch_fft_fft X = Inl RuntimeError"
  using assms by (simp add: torch_fft_fft_def Let_def)

text \<open>
  Claim C4 says that \<open>forward\<close> returns the leading half of the transform for every
  input of shape \<open>(batch, n)\<close> with \<open>n \<ge> 2\<close>. For an empty batch there is nothing to
  transform and the transform raises: on the input of shape \<open>(0, 4)\<close> \<open>forward\<close> fails
  with a \<open>RuntimeError\<close> and returns no tensor of shape \<open>(0, 2)\<close>.
\<close>

theorem FourierCoefficientsLayer_empty_batch_raises:
  "FourierCoefficientsLayer_forward \<lparr>shape = [0, 4], storage = []\<rparr> = Inl RuntimeError"
  by (simp add: FourierCoefficientsLayer_forward_def torch_fft_fft_empty
      torch_tensor_complex64_def numel_def)

text \<open>
  Claim C4, amended. For an input of shape \<open>(batch, n)\<close> with \<open>batch \<ge> 1\<close> and
  \<open>n \<ge> 2\<close>, \<open>forward\<close> returns a tensor of shape \<open>(batch, n div 2)\<close> whose row \<open>r\<close>
  holds the entries \<open>0, \<dots>, n div 2 - 1\<close> of the discrete Fourier transform of row
  \<open>r\<close> of the input, \<open>\<Sum>m<n. x[r, m] * exp (- 2\<pi>\<i> k m / n)\<close>, without a normalization
  factor.
\<close>

theorem FourierCoefficientsLayer_forward_half_dft:
  assumes "shape x = [batch, n]" and "wf_tensor x" and "2 \<le> n" and "0 < batch"
  shows "\<exists>Y. FourierCoefficientsLayer_forward x = Inr Y \<and> shape Y = [batch, n div 2] \<and>
           wf_tensor Y \<and>
           (\<forall>r<batch. \<forall>k<n div 2.
              elem Y [r, k] =
                (\<Sum>m<n. elem x [r, m] *
                    exp (- (2 * of_real pi * \<i> * of_nat k * of_nat m / of_nat n))))"
proof -
  let ?xs = "storage x" and ?h = "n div 2"
  let ?row = "\<lambda>r. take n (drop (r * n) ?xs)"
  let ?F = "concat (map (\<lambda>r. dft (?row r)) [0..<batch])"
  let ?half = "\<lambda>r. take ?h (drop (r * n) ?F)"
  let ?Y = "\<lparr>shape = [batch, ?h], storage = concat (map ?half [0..<batch])\<rparr>"
  have len: "length ?xs = batch * n"
    using assms(1,2) by (simp add: wf_tensor_def)
  have lrow: "length (?row r) = n" if "r < batch" for r
    using len that by (rule length_row) simp
  have lF: "length ?F = batch * n"
    by (rule length_concat_uniform) (simp only: length_dft lrow)
  have lhalf: "length (?half r) = ?h" if "r < batch" for r
    using lF that by (rule length_row) simp
  have fwd: "FourierCoefficientsLayer_forward x = Inr ?Y"
    using assms(1,3,4) by (intro FourierCoefficientsLayer_forward_2d) simp_all
  have wf: "wf_tensor ?Y"
    using length_concat_uniform [of batch ?half ?h] lhalf by (simp add: wf_tensor_def)
  have el: "elem ?Y [r, k] =
        (\<Sum>m<n. elem x [r, m] * exp (- (2 * of_real pi * \<i> * of_nat k * of_nat m / of_nat n)))"
    if "r < batch" and "k < ?h" for r k
  proof -
    have kn: "k < n" using that(2) by simp
    have "elem ?Y [r, k] = concat (map ?half [0..<batch]) ! (r * ?h + k)"
      by (simp add: elem_def)
    also have "\<dots> = ?half r ! k"
      using lhalf that by (intro nth_concat_uniform) simp_all
    also have "\<dots> = ?F ! (r * n + k)"
      using lF that by (intro nth_row) simp_all
    also have "\<dots> = dft (?row r) ! k"
      using that(1) kn by (intro nth_concat_uniform) (simp_all only: length_dft lrow)
    also have "\<dots> = (\<Sum>m<n. ?row r ! m *
        exp (- (2 * of_real pi * \<i> * of_nat k * of_nat m / of_nat n)))"
      using nth_dft [of k "?row r"] kn lrow [OF that(1)] by simp
    also have "\<dots> = (\<Sum>m<n. elem x [r, m] *
        exp (- (2 * of_real pi * \<i> * of_nat k * of_nat m / of_nat n)))"
    proof (rule sum.cong)
      fix m assume "m \<in> {..<n}"
      then have "m < n" by simp
      with len that(1) have "?row r ! m = ?xs ! (r * n + m)"
        by (intro nth_row) simp_all
      then show "?row r ! m * exp (- (2 * of_real pi * \<i> * of_nat k * of_nat m / of_nat n))
          = elem x [r, m] * exp (- (2 * of_real pi * \<i> * of_nat k * of_nat m / of_nat n))"
        using assms(1) by (simp add: elem_def)
    qed simp
    finally show ?thesis .
  qed
  from fwd wf el show ?thesis by auto
qed

text \<open>The transform of \<open>[1, 2, 3, 4]\<close> is \<open>[10, - 2 + 2\<i>, - 2, - 2 - 2\<i>]\<close>; the layer
  keeps the first two entries.\<close>

lemma twiddle_cis:
  "exp (- (2 * complex_of_real pi * \<i> * of_nat k * of_nat m / of_nat n))
     = cis (- (2 * pi * real k * real m / real n))"
  by (simp add: cis_conv_exp mult_ac)

lemma sum_lessThan_4:
  fixes f :: "nat \<Rightarrow> complex"
  shows "(\<Sum>m<4. f m) = f 0 + f 1 + f 2 + f 3"
  by (simp add: eval_nat_numeral lessThan_Suc)

theorem FourierCoefficientsLayer_forward_half_dft_witness:
  "\<exists>Y. FourierCoefficientsLayer_forward \<lparr>shape = [1, 4], storage = [1, 2, 3, 4]\<rparr> = Inr Y \<and>
       shape Y = [1, 2] \<and> wf_tensor Y \<and> elem Y [0, 0] = 10 \<and> elem Y [0, 1] = - 2 + 2 * \<i>"
proof -
  let ?x = "\<lparr>shape = [1, 4], storage = [1, 2, 3, 4 :: complex]\<rparr>"
  have "\<exists>Y. FourierCoefficientsLayer_forward ?x = Inr Y \<and> shape Y = [1, 4 div 2] \<and>
           wf_tensor Y \<and>
           (\<forall>r<1. \<forall>k<4 div 2.
              elem Y [r, k] =
                (\<Sum>m<4. elem ?x [r, m] *
                    exp (- (2 * of_real pi * \<i> * of_nat k * of_nat m / of_nat 4))))"
    by (rule FourierCoefficientsLayer_forward_half_dft) (simp_all add: wf_tensor_def)
  then obtain Y where fwd: "FourierCoefficientsLayer_forward ?x = Inr Y"
    and sh: "shape Y = [1, 4 div 2]" and wf: "wf_tensor Y"
    and el: "\<And>r k. r < 1 \<Longrightarrow> k < 4 div 2 \<Longrightarrow> elem Y [r, k] =
                (\<Sum>m<4. elem ?x [r, m] *
                    exp (- (2 * of_real pi * \<i> * of_nat k * of_nat m / of_nat 4)))"
    by blast
  have x: "elem ?x [0, 0] = 1" "elem ?x [0, 1] = 2" "elem ?x [0, 2] = 3" "elem ?x [0, 3] = 4"
    by (simp_all add: elem_def eval_nat_numeral)
  have c1: "cis (- (2 * pi * real 1 * real 1 / real 4)) = - \<i>"
    using cis_minus_pi_half by simp
  have c2: "cis (- (2 * pi * real 1 * real 2 / real 4)) = - 1"
    by (simp add: complex_eq_iff)
  have "- (2 * pi * real 1 * real 3 / real 4) = - (3 / 2 * pi)" by simp
  then have c3: "cis (- (2 * pi * real 1 * real 3 / real 4)) = \<i>"
    by (simp only: complex_eq_iff cis.sel cos_minus sin_minus cos_3over2_pi sin_3over2_pi) simp
  have c0: "cis (- (2 * pi * real k * real 0 / real 4)) = 1" for k by simp
  have z: "cis (- (2 * pi * real 0 * real m / real 4)) = 1" for m by simp
  have "elem Y [0, 0] = (\<Sum>m<4. elem ?x [0, m] *
      exp (- (2 * of_real pi * \<i> * of_nat 0 * of_nat m / of_nat 4)))"
    by (rule el) simp_all
  also have "\<dots> = 1 * 1 + 2 * 1 + 3 * 1 + 4 * 1"
    by (simp only: sum_lessThan_4 twiddle_cis z x)
  also have "\<dots> = 10" by simp
  finally have k0: "elem Y [0, 0] = 10" .
  have "elem Y [0, 1] = (\<Sum>m<4. elem ?x [0, m] *
      exp (- (2 * of_real pi * \<i> * of_nat 1 * of_nat m / of_nat 4)))"
    by (rule el) simp_all
  also have "\<dots> = 1 * 1 + 2 * (- \<i>) + 3 * (- 1) + 4 * \<i>"
    by (simp only: sum_lessThan_4 twiddle_cis c0 c1 c2 c3 x)
  also have "\<dots> = - 2 + 2 * \<i>" by (simp add: complex_eq_iff)
  finally have k1: "elem Y [0, 1] = - 2 + 2 * \<i>" .
  from fwd sh wf k0 k1 show ?thesis by simp
qed

text \<open>
  Claim C6 says that an input of shape \<open>(batch, 1)\<close> is rejected. The layer has no
  check of its own and the transform accepts one data point: for \<open>x = [[5]]\<close>
  \<open>forward\<close> returns the tensor of shape \<open>(1, 0)\<close>, which has no elements.
\<close>

theorem FourierCoefficientsLayer_length_one_not_rejected:
  "FourierCoefficientsLayer_forward \<lparr>shape = [1, 1], storage = [5]\<rparr>
     = Inr \<lparr>shape = [1, 0], storage = []\<rparr>"
  using FourierCoefficientsLayer_forward_2d [of "\<lparr>shape = [1, 1], storage = [5]\<rparr>" 1 1]
  by simp

text \<open>
  Claim C6, amended. For every input of shape \<open>(batch, 1)\<close> with \<open>batch \<ge> 1\<close>,
  \<open>forward\<close> raises nothing and returns the tensor of shape \<open>(batch, 0)\<close>, without
  elements. An input whose last dimension, the one transformed, has size 0 is
  rejected with the \<open>RuntimeError\<close> of the transform.
\<close>

theorem FourierCoefficientsLayer_forward_degenerate:
  "(0 < batch \<and> shape x = [batch, 1] \<longrightarrow>
      FourierCoefficientsLayer_forward x = Inr \<lparr>shape = [batch, 0], storage = []\<rparr>) \<and>
   (shape y \<noteq> [] \<and> last (shape y) = 0 \<longrightarrow>
      FourierCoefficientsLayer_forward y = Inl RuntimeError)"
proof (intro conjI impI)
  assume "0 < batch \<and> shape x = [batch, 1]"
  then show "FourierCoefficientsLayer_forward x = Inr \<lparr>shape = [batch, 0], storage = []\<rparr>"
    using FourierCoefficientsLayer_forward_2d [of x batch 1] by simp
next
  assume "shape y \<noteq> [] \<and> last (shape y) = 0"
  then show "FourierCoefficientsLayer_forward y = Inl RuntimeError"
    by (simp add: FourierCoefficientsLayer_forward_def torch_fft_fft_def
        torch_tensor_complex64_def)
qed

theorem FourierCoefficientsLayer_forward_degenerate_witness:
  "FourierCoefficientsLayer_forward \<lparr>shape = [2, 1], storage = [5, 6]\<rparr>
     = Inr \<lparr>shape = [2, 0], storage = []\<rparr> \<and>
   FourierCoefficientsLayer_forward \<lparr>shape = [2, 0], storage = []\<rparr> = Inl RuntimeError"
  using FourierCoefficientsLayer_forward_degenerate [of 2 "\<lparr>shape = [2, 1], storage = [5, 6]\<rparr>"
      "\<lparr>shape = [2, 0], storage = []\<rparr>"]
  by simp

end
